theory Spec2Isabelle
  imports Complex_Main "HOL-Library.Word"
begin

unbundle bit_operations_syntax

section \<open>Starlink PNT relay: a shallow embedding\<close>

text \<open>
  The three programs of the repository are embedded side by side:
  \<^item> \<^verbatim>\<open>starlink_mavlink_gps.py\<close>: the GPS\_INPUT injection (suffix \<open>_mavlink\<close> where a
    name occurs in more than one program);
  \<^item> \<^verbatim>\<open>starlink_to_udp.py\<close>: the UDP bridge (\<open>generate_nmea_sentences\<close>);
  \<^item> \<^verbatim>\<open>starlink_nmea_fallback.py\<close>: the fallback bridge (\<open>get_starlink_sentences\<close> and the
    reader loop of \<open>main\<close>).

  Conventions. Python floats are read as the real numbers they denote, and float
  arithmetic as exact arithmetic (no rounding of intermediate results, no infinities or
  NaN). Python integers are \<open>int\<close> or, where the source cannot make them negative,
  \<open>nat\<close>. Text is \<open>string\<close>; every string the programs build is ASCII. What the
  programs read from their environment (wall clock, query results of the external tools,
  lines of the serial device) is an argument of the function that reads it; what they
  write (pipe writes, console lines, MAVLink messages, external tool runs) is returned
  as a list.
\<close>

subsection \<open>Python primitives used by the programs\<close>

text \<open>\<^verbatim>\<open>s.startswith(p)\<close>.\<close>

definition startswith :: "string \<Rightarrow> string \<Rightarrow> bool" where
  "startswith s p = (take (length p) s = p)"

text \<open>\<^verbatim>\<open>int(x)\<close> on a float: truncation towards zero.\<close>

definition int_trunc :: "real \<Rightarrow> int" where
  "int_trunc x = (if 0 \<le> x then \<lfloor>x\<rfloor> else \<lceil>x\<rceil>)"

text \<open>\<^verbatim>\<open>x % y\<close> on floats: the result has the sign of the divisor.\<close>

definition float_mod :: "real \<Rightarrow> real \<Rightarrow> real" where
  "float_mod x y = x - y * of_int \<lfloor>x / y\<rfloor>"

text \<open>Rounding to the nearest integer, ties to the even one (decimal formatting of
  floats and \<^verbatim>\<open>datetime.fromtimestamp\<close> both round this way).\<close>

definition round_half_even :: "real \<Rightarrow> int" where
  "round_half_even x =
     (let f = \<lfloor>x\<rfloor>; d = x - of_int f in
      if d < 1 / 2 then f
      else if 1 / 2 < d then f + 1
      else if even f then f else f + 1)"

text \<open>Digits. \<open>digit_char\<close> is the digit of a value below 16, upper case as \<^verbatim>\<open>X\<close>
  formats it.\<close>

definition digit_char :: "nat \<Rightarrow> char" where
  "digit_char d = ''0123456789ABCDEF'' ! d"

fun str_nat :: "nat \<Rightarrow> string" where
  "str_nat n = (if n < 10 then [digit_char n] else str_nat (n div 10) @ [digit_char (n mod 10)])"

fun hex_nat :: "nat \<Rightarrow> string" where
  "hex_nat n = (if n < 16 then [digit_char n] else hex_nat (n div 16) @ [digit_char (n mod 16)])"

declare str_nat.simps [simp del] hex_nat.simps [simp del]

text \<open>\<^verbatim>\<open>str(i)\<close> for an integer, as \<^verbatim>\<open>f"{i}"\<close> renders it.\<close>

definition str_int :: "int \<Rightarrow> string" where
  "str_int i = (if i < 0 then ''-'' @ str_nat (nat (- i)) else str_nat (nat i))"

text \<open>Left padding with zeros up to a width.\<close>

definition zpad :: "nat \<Rightarrow> string \<Rightarrow> string" where
  "zpad w s = replicate (w - length s) (CHR ''0'') @ s"

text \<open>\<^verbatim>\<open>f"{n:0wd}"\<close> for an integer: the sign first, then zeros, then the digits.\<close>

definition fmt_0d :: "nat \<Rightarrow> int \<Rightarrow> string" where
  "fmt_0d w i =
     (if i < 0 then ''-'' @ zpad (w - 1) (str_nat (nat (- i))) else zpad w (str_nat (nat i)))"

text \<open>The digits of \<^verbatim>\<open>f"{x:.pf}"\<close> without the sign: \<open>\<bar>x\<bar>\<close> rounded to \<open>p\<close>
  decimals.\<close>

definition fixed_digits :: "nat \<Rightarrow> real \<Rightarrow> string" where
  "fixed_digits p x =
     (let n = nat (round_half_even (\<bar>x\<bar> * 10 ^ p)) in
      str_nat (n div 10 ^ p) @ (if p = 0 then [] else ''.'' @ zpad p (str_nat (n mod 10 ^ p))))"

text \<open>\<^verbatim>\<open>f"{x:.pf}"\<close> and \<^verbatim>\<open>f"{x:0w.pf}"\<close>.\<close>

definition fmt_f :: "nat \<Rightarrow> real \<Rightarrow> string" where
  "fmt_f p x = (if x < 0 then ''-'' else []) @ fixed_digits p x"

definition fmt_0f :: "nat \<Rightarrow> nat \<Rightarrow> real \<Rightarrow> string" where
  "fmt_0f w p x =
     (if x < 0 then ''-'' @ zpad (w - 1) (fixed_digits p x) else zpad w (fixed_digits p x))"

text \<open>\<^verbatim>\<open>f"{n:02X}"\<close>.\<close>

definition fmt_02X :: "nat \<Rightarrow> string" where
  "fmt_02X n = zpad 2 (hex_nat n)"

text \<open>A \<^verbatim>\<open>datetime\<close> value, and the \<^verbatim>\<open>strftime\<close> patterns the encoders use.\<close>

record datetime =
  year :: nat
  month :: nat
  day :: nat
  hour :: nat
  minute :: nat
  second :: nat
  microsecond :: nat

definition strftime_HMSf :: "datetime \<Rightarrow> string" where
  "strftime_HMSf now =
     zpad 2 (str_nat (hour now)) @ zpad 2 (str_nat (minute now)) @ zpad 2 (str_nat (second now))
       @ ''.'' @ zpad 6 (str_nat (microsecond now))"

definition strftime_dmy :: "datetime \<Rightarrow> string" where
  "strftime_dmy now =
     zpad 2 (str_nat (day now)) @ zpad 2 (str_nat (month now)) @ zpad 2 (str_nat (year now mod 100))"

text \<open>\<^verbatim>\<open>s[:-4]\<close>.\<close>

definition drop_last4 :: "string \<Rightarrow> string" where
  "drop_last4 s = take (length s - 4) s"

subsection \<open>The position sample\<close>

text \<open>The dictionary returned by \<^verbatim>\<open>get_starlink_pnt\<close>: every entry is \<^verbatim>\<open>None\<close> or
  the value found in the terminal's answer. (The injection program's dictionary has no
  \<open>accuracy\<close> entry and its encoder does not read one.)\<close>

record pnt =
  lat :: "real option"
  lon :: "real option"
  alt :: "real option"
  accuracy :: "real option"
  gps_sats :: "int option"
  gps_valid :: "bool option"

subsection \<open>The corrected clock\<close>

record ntp_state =
  ntp_offset :: real
  ntp_last_sync :: real
  ntp_available :: bool

definition ntp_initial :: ntp_state where
  "ntp_initial = \<lparr>ntp_offset = 0, ntp_last_sync = 0, ntp_available = False\<rparr>"








text \<open>\<^verbatim>\<open>get_ntp_timestamp\<close>; the second argument is \<^verbatim>\<open>time.time()\<close>.\<close>

definition get_ntp_timestamp :: "ntp_state \<Rightarrow> real \<Rightarrow> real" where
  "get_ntp_timestamp st t = (if ntp_available st then t + ntp_offset st else t)"

subsection \<open>GNSS time and the GPS\_INPUT message (\<^verbatim>\<open>send_gps_input\<close>)\<close>

text \<open>\<^verbatim>\<open>datetime.fromtimestamp(t, tz=timezone.utc)\<close> keeps whole microseconds; the value is
  the instant's microsecond count since the Unix epoch.\<close>

definition fromtimestamp_micros :: "real \<Rightarrow> int" where
  "fromtimestamp_micros t = round_half_even (t * 1000000)"

text \<open>\<^verbatim>\<open>datetime(1980, 1, 6, tzinfo=timezone.utc)\<close> in seconds since the Unix epoch
  (3657 days).\<close>

definition gps_epoch :: int where
  "gps_epoch = 315964800"

definition gps_utc_offset :: real where
  "gps_utc_offset = 18"

text \<open>\<^verbatim>\<open>time_since_gps_epoch\<close> after the leap seconds are added.\<close>

definition time_since_gps_epoch :: "real \<Rightarrow> real" where
  "time_since_gps_epoch current_time =
     of_int (fromtimestamp_micros current_time - gps_epoch * 1000000) / 1000000 + gps_utc_offset"

definition gps_week :: "real \<Rightarrow> int" where
  "gps_week current_time = int_trunc (time_since_gps_epoch current_time / 604800)"

definition time_week :: "real \<Rightarrow> real" where
  "time_week current_time = float_mod (time_since_gps_epoch current_time) 604800"

definition time_week_ms :: "real \<Rightarrow> int" where
  "time_week_ms current_time = int_trunc (time_week current_time * 1000)"


text \<open>The 18 positional arguments of \<^verbatim>\<open>gps_input_send\<close>, in order.\<close>

record gps_input =
  time_usec :: int
  gps_id :: nat
  ignore_flags :: nat
  msg_time_week_ms :: int
  msg_time_week :: int
  time_accuracy :: nat
  msg_lat :: int
  msg_lon :: int
  msg_alt :: int
  hdop :: real
  vdop :: real
  ground_speed :: real
  ground_track :: real
  satellites_visible :: int
  fix_type :: nat
  horiz_accuracy :: nat
  vert_accuracy :: nat
  speed_accuracy :: nat

definition ignore_flags_const :: nat where
  "ignore_flags_const = 8 OR 16 OR 32 OR 64 OR 128 OR 256 OR 512"

text \<open>Truthiness of an optional number or flag, as \<^verbatim>\<open>x if x else d\<close> tests it.\<close>

definition truthy_real :: "real option \<Rightarrow> bool" where
  "truthy_real x = (case x of None \<Rightarrow> False | Some v \<Rightarrow> v \<noteq> 0)"

definition truthy_int :: "int option \<Rightarrow> bool" where
  "truthy_int x = (case x of None \<Rightarrow> False | Some v \<Rightarrow> v \<noteq> 0)"

definition truthy_bool :: "bool option \<Rightarrow> bool" where
  "truthy_bool x = (case x of None \<Rightarrow> False | Some v \<Rightarrow> v)"

text \<open>\<^verbatim>\<open>send_gps_input\<close>. Arguments: the clock state, the counter \<^verbatim>\<open>total_sent\<close>, the
  sample, \<^verbatim>\<open>time.time()\<close>. Result: the returned flag, the messages handed to
  \<^verbatim>\<open>gps_input_send\<close>, the counter.\<close>

definition send_gps_input :: "ntp_state \<Rightarrow> nat \<Rightarrow> pnt \<Rightarrow> real \<Rightarrow> bool \<times> gps_input list \<times> nat" where
  "send_gps_input st total_sent p t =
     (case (lat p, lon p) of
        (Some la, Some lo) \<Rightarrow>
          (let current_time = get_ntp_timestamp st t in
           (True,
            [\<lparr>time_usec = int_trunc (current_time * 1000000),
              gps_id = 0,
              ignore_flags = ignore_flags_const,
              msg_time_week_ms = time_week_ms current_time,
              msg_time_week = gps_week current_time,
              time_accuracy = 0,
              msg_lat = int_trunc (la * 10000000),
              msg_lon = int_trunc (lo * 10000000),
              msg_alt = int_trunc ((if truthy_real (alt p) then the (alt p) else 0) * 1000),
              hdop = 0, vdop = 0, ground_speed = 0, ground_track = 0,
              satellites_visible = (if truthy_int (gps_sats p) then the (gps_sats p) else 10),
              fix_type = (if truthy_bool (gps_valid p) then 3 else 0),
              horiz_accuracy = 0, vert_accuracy = 0, speed_accuracy = 0\<rparr>],
            total_sent + 1))
      | _ \<Rightarrow> (False, [], total_sent))"

subsection \<open>NMEA sentences\<close>

text \<open>\<^verbatim>\<open>nmea_lat\<close> and \<^verbatim>\<open>nmea_lon\<close> (module functions of the UDP bridge, local functions
  of the fallback bridge, the same text).\<close>

definition nmea_lat :: "real \<Rightarrow> string" where
  "nmea_lat val =
     (let deg = int_trunc \<bar>val\<bar>;
          minf = (\<bar>val\<bar> - of_int deg) * 60;
          hemi = (if 0 \<le> val then ''N'' else ''S'')
      in fmt_0d 2 deg @ fmt_0f 7 4 minf @ '','' @ hemi)"

definition nmea_lon :: "real \<Rightarrow> string" where
  "nmea_lon val =
     (let deg = int_trunc \<bar>val\<bar>;
          minf = (\<bar>val\<bar> - of_int deg) * 60;
          hemi = (if 0 \<le> val then ''E'' else ''W'')
      in fmt_0d 3 deg @ fmt_0f 7 4 minf @ '','' @ hemi)"

text \<open>The loop \<^verbatim>\<open>for c in sentence[1:]: checksum ^= ord(c)\<close>.\<close>

definition xor_chars :: "string \<Rightarrow> nat" where
  "xor_chars s = fold (\<lambda>c checksum. checksum XOR of_char c) s 0"

definition calculate_checksum :: "string \<Rightarrow> string" where
  "calculate_checksum sentence = fmt_02X (xor_chars (drop 1 sentence))"

text \<open>\<^verbatim>\<open>f"{body}*{checksum:02X}"\<close>, which both bridges append to their batch.\<close>

definition with_checksum :: "string \<Rightarrow> string" where
  "with_checksum body = body @ ''*'' @ calculate_checksum body"

text \<open>The six sentence bodies, as the f-strings build them.\<close>

definition gga_body :: "string \<Rightarrow> string \<Rightarrow> string \<Rightarrow> nat \<Rightarrow> int \<Rightarrow> real \<Rightarrow> real \<Rightarrow> string" where
  "gga_body time_str lat_str lon_str fix_quality sats acc al =
     ''$GPGGA,'' @ time_str @ '','' @ lat_str @ '','' @ lon_str @ '','' @ str_nat fix_quality
       @ '','' @ str_int sats @ '','' @ fmt_f 1 acc @ '','' @ fmt_f 1 al @ '',M,0.0,M,,''"

definition rmc_body :: "string \<Rightarrow> bool \<Rightarrow> string \<Rightarrow> string \<Rightarrow> string \<Rightarrow> string" where
  "rmc_body time_str valid lat_str lon_str date_str =
     ''$GPRMC,'' @ time_str @ '','' @ (if valid then ''A'' else ''V'') @ '','' @ lat_str @ '',''
       @ lon_str @ '',0.0,0.0,'' @ date_str @ '',,''"

definition vtg_body :: string where
  "vtg_body = ''$GPVTG,0.0,T,,M,0.0,N,0.0,K,''"

definition gll_body :: "string \<Rightarrow> string \<Rightarrow> string \<Rightarrow> bool \<Rightarrow> string" where
  "gll_body lat_str lon_str time_str valid =
     ''$GPGLL,'' @ lat_str @ '','' @ lon_str @ '','' @ time_str @ '',''
       @ (if valid then ''A'' else ''V'') @ '',''"

definition gsa_body :: "real \<Rightarrow> string" where
  "gsa_body acc =
     ''$GPGSA,A,3,01,02,03,04,05,06,07,08,09,10,11,12,'' @ fmt_f 1 acc @ '','' @ fmt_f 1 acc
       @ '','' @ fmt_f 1 acc"

definition zda_body :: "string \<Rightarrow> datetime \<Rightarrow> string" where
  "zda_body time_str now =
     ''$GPZDA,'' @ time_str @ '','' @ fmt_0d 2 (int (day now)) @ '','' @ fmt_0d 2 (int (month now))
       @ '','' @ str_nat (year now) @ '',,,''"

definition time_str_of :: "datetime \<Rightarrow> string" where
  "time_str_of now = drop_last4 (strftime_HMSf now)"

text \<open>\<^verbatim>\<open>generate_nmea_sentences\<close> of the UDP bridge. \<open>now\<close> is the datetime the function
  samples once (corrected or not, as \<^verbatim>\<open>ntp_available\<close> says).\<close>

definition generate_nmea_sentences :: "pnt \<Rightarrow> datetime \<Rightarrow> string list" where
  "generate_nmea_sentences p now =
     (let la = (case lat p of Some v \<Rightarrow> v | None \<Rightarrow> 0);
          lo = (case lon p of Some v \<Rightarrow> v | None \<Rightarrow> 0);
          al = (case alt p of Some v \<Rightarrow> v | None \<Rightarrow> 0);
          sats = (case gps_sats p of Some v \<Rightarrow> v | None \<Rightarrow> 0);
          valid = (case gps_valid p of Some v \<Rightarrow> v | None \<Rightarrow> False);
          acc = 1
      in if la = 0 \<and> lo = 0 then []
         else
           (let time_str = time_str_of now;
                date_str = strftime_dmy now;
                lat_str = nmea_lat la;
                lon_str = nmea_lon lo;
                fix_quality = (if valid then 1 else 0)
            in [with_checksum (gga_body time_str lat_str lon_str fix_quality sats acc al),
                with_checksum (rmc_body time_str valid lat_str lon_str date_str),
                with_checksum vtg_body,
                with_checksum (gll_body lat_str lon_str time_str valid),
                with_checksum (gsa_body acc)]))"

text \<open>\<^verbatim>\<open>get_starlink_sentences\<close> of the fallback bridge. The function samples the clock
  anew before each of its six sentences: \<open>nows i\<close> is the \<open>i\<close>-th sample.\<close>

definition get_starlink_sentences :: "pnt \<Rightarrow> (nat \<Rightarrow> datetime) \<Rightarrow> string list" where
  "get_starlink_sentences p nows =
     (let la = (case lat p of Some v \<Rightarrow> v | None \<Rightarrow> 47);
          lo = (case lon p of Some v \<Rightarrow> v | None \<Rightarrow> - 122);
          al = (case alt p of Some v \<Rightarrow> v | None \<Rightarrow> 10);
          sats = (case gps_sats p of Some v \<Rightarrow> v | None \<Rightarrow> 8);
          valid = (case gps_valid p of Some v \<Rightarrow> v | None \<Rightarrow> True);
          acc = (case accuracy p of Some v \<Rightarrow> v | None \<Rightarrow> 1);
          nmea_lat_str = nmea_lat la;
          nmea_lon_str = nmea_lon lo;
          fix_quality = (if valid then 1 else 0)
      in [with_checksum (gga_body (time_str_of (nows 0)) nmea_lat_str nmea_lon_str fix_quality sats acc al),
          with_checksum (rmc_body (time_str_of (nows 1)) valid nmea_lat_str nmea_lon_str
             (strftime_dmy (nows 1))),
          with_checksum vtg_body,
          with_checksum (gll_body nmea_lat_str nmea_lon_str (time_str_of (nows 3)) valid),
          with_checksum (gsa_body acc),
          with_checksum (zda_body (time_str_of (nows 5)) (nows 5))])"

subsection \<open>The failover controller (reader loop of the fallback bridge)\<close>

record fallback_state =
  last_gps_data_time :: real
  fallback_active :: bool

text \<open>The module-level initial values.\<close>

definition initial_state :: fallback_state where
  "initial_state = \<lparr>last_gps_data_time = 0, fallback_active = False\<rparr>"

definition LOCK_LOSS_THRESHOLD :: real where
  "LOCK_LOSS_THRESHOLD = 120"

text \<open>What the loop writes: a text to the pipe, or a line to the console.\<close>

datatype io_event = PipeWrite string | Print string

definition CRLF :: string where
  "CRLF = [CHR 0x0D, CHR 0x0A]"

text \<open>\<^verbatim>\<open>.decode('ascii', errors='ignore')\<close> drops every byte above 127;
  \<^verbatim>\<open>.strip()\<close> removes white space (tab, line feed, vertical tab, form feed, carriage
  return, the four separators 28 to 31, space) at both ends.\<close>

definition decode_ascii_ignore :: "string \<Rightarrow> string" where
  "decode_ascii_ignore raw = filter (\<lambda>c. (of_char c :: nat) < 128) raw"

definition isspace :: "char \<Rightarrow> bool" where
  "isspace c = (let n = (of_char c :: nat) in (9 \<le> n \<and> n \<le> 13) \<or> (28 \<le> n \<and> n \<le> 32))"

definition strip :: "string \<Rightarrow> string" where
  "strip s = rev (dropWhile isspace (rev (dropWhile isspace s)))"

definition read_line :: "string \<Rightarrow> string" where
  "read_line raw = strip (decode_ascii_ignore raw)"

text \<open>The test of line 326.\<close>

definition is_gps_line :: "string \<Rightarrow> bool" where
  "is_gps_line line = (startswith line ''$GP'' \<or> startswith line ''$GN'')"

definition msg_resumed :: string where
  "msg_resumed = ''GPS data resumed, switching back from fallback.''"

definition msg_lock_loss :: string where
  "msg_lock_loss = ''No GPS data, switching to Starlink fallback.''"

definition msg_device_error :: string where
  "msg_device_error = ''Switching to Starlink fallback due to device error.''"

definition msg_reconnected :: string where
  "msg_reconnected = ''GPS device reconnected, resuming normal operation.''"

text \<open>Lines 326 to 337: a recognised line refreshes the timer, ends a fallback, and is
  written to the pipe.\<close>

definition handle_line :: "fallback_state \<Rightarrow> string \<Rightarrow> real \<Rightarrow> fallback_state \<times> io_event list" where
  "handle_line st line now =
     (if is_gps_line line
      then (\<lparr>last_gps_data_time = now, fallback_active = False\<rparr>,
            (if fallback_active st then [Print msg_resumed] else [])
              @ [PipeWrite (line @ CRLF), Print (''GPS: '' @ line)])
      else (st, []))"

text \<open>Lines 338 to 340: the silence timer.\<close>

definition check_lock_loss :: "fallback_state \<Rightarrow> real \<Rightarrow> fallback_state \<times> io_event list" where
  "check_lock_loss st now =
     (if \<not> fallback_active st \<and> LOCK_LOSS_THRESHOLD < now - last_gps_data_time st
      then (st\<lparr>fallback_active := True\<rparr>, [Print msg_lock_loss])
      else (st, []))"

text \<open>Lines 341 to 351, and 361 to 377 of the handler: in fallback every sentence of the
  batch is written to the pipe and echoed.\<close>

definition emit_batch :: "string list \<Rightarrow> io_event list" where
  "emit_batch sentences = concat (map (\<lambda>nmea. [PipeWrite (nmea @ CRLF), Print (''FALLBACK: '' @ nmea)]) sentences)"

text \<open>One pass of the reader loop (lines 324 to 353). Arguments: the state, the bytes
  \<^verbatim>\<open>readline\<close> returned (empty on a time-out), \<^verbatim>\<open>time.time()\<close>, and the batch
  \<^verbatim>\<open>get_starlink_sentences\<close> yields if it is called.\<close>

definition loop_iteration :: "fallback_state \<Rightarrow> string \<Rightarrow> real \<Rightarrow> string list
    \<Rightarrow> fallback_state \<times> io_event list" where
  "loop_iteration st raw now sentences =
     (let line = read_line raw;
          (st1, out1) = handle_line st line now;
          (st2, out2) = check_lock_loss st1 now
      in (st2, out1 @ out2 @ (if fallback_active st2 then emit_batch sentences else [])))"


text \<open>Lines 354 to 358: a \<^verbatim>\<open>SerialException\<close> ends the reader loop and forces the
  fallback; \<open>e\<close> is the text of the exception.\<close>

definition on_serial_exception :: "fallback_state \<Rightarrow> string \<Rightarrow> fallback_state \<times> io_event list" where
  "on_serial_exception st e =
     (if \<not> fallback_active st
      then (st\<lparr>fallback_active := True\<rparr>, [Print (''GPS device error: '' @ e), Print msg_device_error])
      else (st, [Print (''GPS device error: '' @ e)]))"

text \<open>One pass of the handler's loop (lines 360 to 382): a batch, then the test whether
  the device path is there again.\<close>

definition handler_cycle :: "fallback_state \<Rightarrow> string list \<Rightarrow> bool \<Rightarrow> fallback_state \<times> io_event list" where
  "handler_cycle st sentences device_present =
     (if device_present
      then (st\<lparr>fallback_active := False\<rparr>, emit_batch sentences @ [Print msg_reconnected])
      else (st, emit_batch sentences))"


subsection \<open>Reading a sentence back\<close>

text \<open>The check a receiver makes on a sentence: a leading \<open>$\<close>, the body up to the first
  \<open>*\<close>, then exactly two upper-case hexadecimal digits whose value is the exclusive-or
  of the bytes of the body.\<close>

definition hex_value :: "char \<Rightarrow> nat option" where
  "hex_value c =
     (let n = (of_char c :: nat) in
      if 48 \<le> n \<and> n \<le> 57 then Some (n - 48)
      else if 65 \<le> n \<and> n \<le> 70 then Some (n - 55)
      else None)"

definition checksum_ok :: "string \<Rightarrow> bool" where
  "checksum_ok s =
     (case s of
        [] \<Rightarrow> False
      | c # rest \<Rightarrow>
          c = CHR ''$'' \<and>
          (case dropWhile (\<lambda>x. x \<noteq> CHR ''*'') rest of
             [star, h, l] \<Rightarrow>
               (case (hex_value h, hex_value l) of
                  (Some a, Some b) \<Rightarrow>
                    16 * a + b = fold (\<lambda>x acc. acc XOR of_char x) (takeWhile (\<lambda>x. x \<noteq> CHR ''*'') rest) (0::nat)
                | _ \<Rightarrow> False)
           | _ \<Rightarrow> False))"

text \<open>The \<open>n\<close>-th comma-separated field of a text (\<open>None\<close> when it has fewer fields),
  and of a sentence: the text before the \<open>*\<close>, the address field \<open>$GPxxx\<close> being
  field 0.\<close>

fun field :: "nat \<Rightarrow> string \<Rightarrow> string option" where
  "field 0 s = Some (takeWhile (\<lambda>x. x \<noteq> CHR '','') s)"
| "field (Suc n) s =
     (case dropWhile (\<lambda>x. x \<noteq> CHR '','') s of [] \<Rightarrow> None | c # rest \<Rightarrow> field n rest)"

definition sentence_field :: "nat \<Rightarrow> string \<Rightarrow> string option" where
  "sentence_field n s = field n (takeWhile (\<lambda>x. x \<noteq> CHR ''*'') s)"

text \<open>The kind of a sentence: its address field with the comma that ends it.\<close>

datatype kind = GGA | RMC | VTG | GLL | GSA | ZDA

definition kind_of :: "string \<Rightarrow> kind option" where
  "kind_of s =
     (if startswith s ''$GPGGA,'' then Some GGA
      else if startswith s ''$GPRMC,'' then Some RMC
      else if startswith s ''$GPVTG,'' then Some VTG
      else if startswith s ''$GPGLL,'' then Some GLL
      else if startswith s ''$GPGSA,'' then Some GSA
      else if startswith s ''$GPZDA,'' then Some ZDA
      else None)"

subsection \<open>The scenarios of the specification\<close>

text \<open>The sample with latitude 47.6, longitude -122.3, altitude 10.0, 8 satellites and a
  valid fix; the instant 2025-01-01T00:00:00Z; and the sample of a failed query.\<close>

definition scenario_fix :: pnt where
  "scenario_fix = \<lparr>lat = Some (476 / 10), lon = Some (- 1223 / 10), alt = Some 10,
     accuracy = None, gps_sats = Some 8, gps_valid = Some True\<rparr>"

definition scenario_now :: datetime where
  "scenario_now = \<lparr>year = 2025, month = 1, day = 1, hour = 0, minute = 0, second = 0,
     microsecond = 0\<rparr>"

definition absent_fix :: pnt where
  "absent_fix = \<lparr>lat = None, lon = None, alt = None, accuracy = None, gps_sats = None,
     gps_valid = None\<rparr>"

section \<open>Properties\<close>

subsection \<open>The corrected clock\<close>









subsection \<open>The failover controller\<close>





lemma iteration_unrecognised:
  assumes "\<not> is_gps_line (read_line raw)"
  shows "loop_iteration st raw now sentences =
     (fst (check_lock_loss st now),
      snd (check_lock_loss st now) @
        (if fallback_active (fst (check_lock_loss st now)) then emit_batch sentences else []))"
  using assms by (simp add: loop_iteration_def handle_line_def Let_def split: prod.splits)




lemma iteration_fires:
  assumes "\<not> is_gps_line (read_line raw)" "\<not> fallback_active st"
    "LOCK_LOSS_THRESHOLD < now - last_gps_data_time st"
  shows "loop_iteration st raw now sentences =
    (st\<lparr>fallback_active := True\<rparr>, Print msg_lock_loss # emit_batch sentences)"
  using assms by (simp add: iteration_unrecognised check_lock_loss_def)








text \<open>
  C8. The timer starts at 0, the Unix epoch. At any wall-clock time above the threshold the
  first pass of the reader loop that reads no recognised line therefore switches to the
  fallback at once, and emits the batch in the same pass.
\<close>

theorem first_iteration_falls_back:
  assumes "LOCK_LOSS_THRESHOLD < now" and "\<not> is_gps_line (read_line raw)"
  shows "loop_iteration initial_state raw now sentences =
           (\<lparr>last_gps_data_time = 0, fallback_active = True\<rparr>, Print msg_lock_loss # emit_batch sentences)"
  using assms iteration_fires[of raw initial_state now sentences]
  by (simp add: initial_state_def)

theorem first_iteration_falls_back_witness:
  "loop_iteration initial_state [] 1700000000 [''x''] =
     (\<lparr>last_gps_data_time = 0, fallback_active = True\<rparr>, Print msg_lock_loss # emit_batch [''x''])"
  using first_iteration_falls_back[of 1700000000 "[]" "[''x'']"]
  by (simp add: read_line_def strip_def decode_ascii_ignore_def isspace_def is_gps_line_def
      startswith_def LOCK_LOSS_THRESHOLD_def)



subsection \<open>GNSS time and the injection message\<close>










subsection \<open>The NMEA encoders\<close>

text \<open>The characters the formatters can produce.\<close>

lemma digit_char_mem: "d < 16 \<Longrightarrow> digit_char d \<in> set ''0123456789ABCDEF''"
  unfolding digit_char_def by (rule nth_mem) simp

lemma digit_char_dec: "d < 10 \<Longrightarrow> digit_char d \<in> set ''0123456789''"
proof -
  assume "d < 10"
  then have "''0123456789'' ! d \<in> set ''0123456789''" by (intro nth_mem) simp
  moreover from \<open>d < 10\<close> have "''0123456789ABCDEF'' ! d = ''0123456789'' ! d"
    using nth_append_left[of d "''0123456789''" "''ABCDEF''"] by simp
  ultimately show ?thesis by (simp only: digit_char_def)
qed

lemma str_nat_chars: "set (str_nat n) \<subseteq> set ''0123456789''"
proof (induction n rule: str_nat.induct)
  case (1 n)
  show ?case
  proof (cases "n < 10")
    case True
    then show ?thesis using digit_char_dec[of n] by (subst str_nat.simps) simp
  next
    case False
    have "n mod 10 < 10" by simp
    with False 1 show ?thesis
      using digit_char_dec[of "n mod 10"] by (subst str_nat.simps) simp
  qed
qed

lemma zpad_chars: "set (zpad w s) \<subseteq> insert (CHR ''0'') (set s)"
  by (auto simp: zpad_def)

lemma str_nat_avoid: "c \<notin> set ''0123456789'' \<Longrightarrow> c \<notin> set (str_nat n)"
  using str_nat_chars[of n] by blast

lemma zpad_avoid: "c \<noteq> CHR ''0'' \<Longrightarrow> c \<notin> set s \<Longrightarrow> c \<notin> set (zpad w s)"
  using zpad_chars[of w s] by blast

lemma str_int_avoid: "c \<notin> set ''-0123456789'' \<Longrightarrow> c \<notin> set (str_int i)"
  using str_nat_avoid[of c] by (simp add: str_int_def)

lemma fmt_0d_avoid: "c \<notin> set ''-0123456789'' \<Longrightarrow> c \<notin> set (fmt_0d w i)"
  using str_nat_avoid[of c] by (simp add: fmt_0d_def zpad_avoid)

lemma fixed_digits_avoid: "c \<notin> set ''.0123456789'' \<Longrightarrow> c \<notin> set (fixed_digits p x)"
  using str_nat_avoid[of c] by (simp add: fixed_digits_def Let_def zpad_avoid)

lemma fmt_f_avoid: "c \<notin> set ''-.0123456789'' \<Longrightarrow> c \<notin> set (fmt_f p x)"
  using fixed_digits_avoid[of c] by (simp add: fmt_f_def)

lemma fmt_0f_avoid: "c \<notin> set ''-.0123456789'' \<Longrightarrow> c \<notin> set (fmt_0f w p x)"
  using fixed_digits_avoid[of c] by (simp add: fmt_0f_def zpad_avoid)

lemma time_str_avoid: "c \<notin> set ''.0123456789'' \<Longrightarrow> c \<notin> set (time_str_of now)"
proof -
  assume c: "c \<notin> set ''.0123456789''"
  then have "c \<notin> set (strftime_HMSf now)"
    using str_nat_avoid[of c] by (simp add: strftime_HMSf_def zpad_avoid)
  then show ?thesis
    unfolding time_str_of_def drop_last4_def by (meson in_set_takeD)
qed

lemma date_str_avoid: "c \<notin> set ''0123456789'' \<Longrightarrow> c \<notin> set (strftime_dmy now)"
  using str_nat_avoid[of c] by (simp add: strftime_dmy_def zpad_avoid)

lemma nmea_lat_avoid: "c \<notin> set ''-.0123456789,NS'' \<Longrightarrow> c \<notin> set (nmea_lat v)"
  using fmt_0d_avoid[of c] fmt_0f_avoid[of c] by (simp add: nmea_lat_def Let_def)

lemma nmea_lon_avoid: "c \<notin> set ''-.0123456789,EW'' \<Longrightarrow> c \<notin> set (nmea_lon v)"
  using fmt_0d_avoid[of c] fmt_0f_avoid[of c] by (simp add: nmea_lon_def Let_def)

lemma no_star:
  "CHR ''*'' \<notin> set (str_nat n)" "CHR ''*'' \<notin> set (str_int i)" "CHR ''*'' \<notin> set (fmt_0d w i)"
  "CHR ''*'' \<notin> set (fmt_f q x)" "CHR ''*'' \<notin> set (time_str_of now)"
  "CHR ''*'' \<notin> set (strftime_dmy now)" "CHR ''*'' \<notin> set (nmea_lat v)" "CHR ''*'' \<notin> set (nmea_lon v)"
  by (simp_all add: str_nat_avoid str_int_avoid fmt_0d_avoid fmt_f_avoid time_str_avoid
      date_str_avoid nmea_lat_avoid nmea_lon_avoid)

lemma gga_shape:
  assumes "CHR ''*'' \<notin> set ts" "CHR ''*'' \<notin> set la" "CHR ''*'' \<notin> set lo"
  shows "\<exists>rest. gga_body ts la lo q s a al = CHR ''$'' # rest \<and> CHR ''*'' \<notin> set rest"
  using assms by (simp add: gga_body_def no_star)

lemma rmc_shape:
  assumes "CHR ''*'' \<notin> set ts" "CHR ''*'' \<notin> set la" "CHR ''*'' \<notin> set lo" "CHR ''*'' \<notin> set d"
  shows "\<exists>rest. rmc_body ts v la lo d = CHR ''$'' # rest \<and> CHR ''*'' \<notin> set rest"
  using assms by (simp add: rmc_body_def no_star)

lemma vtg_shape: "\<exists>rest. vtg_body = CHR ''$'' # rest \<and> CHR ''*'' \<notin> set rest"
  by (simp add: vtg_body_def)

lemma gll_shape:
  assumes "CHR ''*'' \<notin> set ts" "CHR ''*'' \<notin> set la" "CHR ''*'' \<notin> set lo"
  shows "\<exists>rest. gll_body la lo ts v = CHR ''$'' # rest \<and> CHR ''*'' \<notin> set rest"
  using assms by (simp add: gll_body_def no_star)

lemma gsa_shape: "\<exists>rest. gsa_body a = CHR ''$'' # rest \<and> CHR ''*'' \<notin> set rest"
  by (simp add: gsa_body_def no_star)

lemma zda_shape:
  assumes "CHR ''*'' \<notin> set ts"
  shows "\<exists>rest. zda_body ts now = CHR ''$'' # rest \<and> CHR ''*'' \<notin> set rest"
  using assms by (simp add: zda_body_def no_star)

lemma xor_chars_bound_aux: "acc < 256 \<Longrightarrow> fold (\<lambda>c checksum. checksum XOR of_char c) s acc < (256::nat)"
proof (induction s arbitrary: acc)
  case Nil
  then show ?case by simp
next
  case (Cons c s)
  have c: "(of_char c :: nat) < 2 ^ 8" using nat_of_char_less_256[of c] by simp
  from Cons.prems have a: "acc < 2 ^ 8" by simp
  have "take_bit 8 (acc XOR of_char c) = acc XOR (of_char c :: nat)"
    using a c by (simp add: take_bit_nat_eq_self_iff[THEN iffD2])
  then have "acc XOR (of_char c :: nat) < 2 ^ 8"
    by (simp only: take_bit_nat_eq_self_iff)
  then show ?case using Cons.IH by simp
qed

lemma xor_chars_bound: "xor_chars s < 256"
  unfolding xor_chars_def by (rule xor_chars_bound_aux) simp

lemma fmt_02X_byte: "n < 256 \<Longrightarrow> fmt_02X n = [digit_char (n div 16), digit_char (n mod 16)]"
proof (cases "n < 16")
  case True
  then show ?thesis
    by (simp add: fmt_02X_def hex_nat.simps[of n] zpad_def digit_char_def)
next
  case False
  assume "n < 256"
  then have "n div 16 < 16" by simp
  with False show ?thesis
    by (simp add: fmt_02X_def hex_nat.simps[of n] hex_nat.simps[of "n div 16"] zpad_def)
qed

lemma hex_value_digit_char: "d < 16 \<Longrightarrow> hex_value (digit_char d) = Some d"
proof -
  assume "d < 16"
  then consider "d = 0" | "d = 1" | "d = 2" | "d = 3" | "d = 4" | "d = 5" | "d = 6" | "d = 7"
    | "d = 8" | "d = 9" | "d = 10" | "d = 11" | "d = 12" | "d = 13" | "d = 14" | "d = 15"
    by atomize_elim arith
  then show ?thesis
    by cases (simp_all add: hex_value_def digit_char_def)
qed

lemma checksum_ok_with_checksum:
  assumes "body = CHR ''$'' # rest" and "CHR ''*'' \<notin> set rest"
  shows "checksum_ok (with_checksum body)"
proof -
  let ?n = "xor_chars rest"
  have n: "?n < 256" by (rule xor_chars_bound)
  then have d: "?n div 16 < 16" "?n mod 16 < 16" by simp_all
  have w: "with_checksum body = CHR ''$'' # (rest @ CHR ''*'' # [digit_char (?n div 16), digit_char (?n mod 16)])"
    by (simp add: with_checksum_def calculate_checksum_def assms(1) fmt_02X_byte[OF n])
  have P: "\<And>x. x \<in> set rest \<Longrightarrow> x \<noteq> CHR ''*''" using assms(2) by auto
  have dw: "dropWhile (\<lambda>x. x \<noteq> CHR ''*'') (rest @ CHR ''*'' # [digit_char (?n div 16), digit_char (?n mod 16)])
      = CHR ''*'' # [digit_char (?n div 16), digit_char (?n mod 16)]"
    using P by simp
  have tw: "takeWhile (\<lambda>x. x \<noteq> CHR ''*'') (rest @ CHR ''*'' # [digit_char (?n div 16), digit_char (?n mod 16)])
      = rest"
    using P by simp
  have v: "16 * (?n div 16) + ?n mod 16 = fold (\<lambda>x acc. acc XOR of_char x) rest (0::nat)"
    by (simp add: xor_chars_def)
  show ?thesis
    unfolding w checksum_ok_def
    by (simp only: list.case dw tw hex_value_digit_char[OF d(1)] hex_value_digit_char[OF d(2)]
        prod.case option.case v simp_thms)
qed

text \<open>The batches, sentence by sentence, and how their fields read back.\<close>

lemma kind_bodies:
  "kind_of (with_checksum (gga_body ts la lo q s a al)) = Some GGA"
  "kind_of (with_checksum (rmc_body ts v la lo d)) = Some RMC"
  "kind_of (with_checksum vtg_body) = Some VTG"
  "kind_of (with_checksum (gll_body la lo ts v)) = Some GLL"
  "kind_of (with_checksum (gsa_body a)) = Some GSA"
  "kind_of (with_checksum (zda_body ts now)) = Some ZDA"
  by (simp_all add: kind_of_def startswith_def with_checksum_def gga_body_def rmc_body_def
      vtg_body_def gll_body_def gsa_body_def zda_body_def)

lemma udp_batch:
  "generate_nmea_sentences p now =
     (if (case lat p of Some v \<Rightarrow> v | None \<Rightarrow> 0) = 0 \<and> (case lon p of Some v \<Rightarrow> v | None \<Rightarrow> 0) = 0
      then []
      else [with_checksum (gga_body (time_str_of now)
               (nmea_lat (case lat p of Some v \<Rightarrow> v | None \<Rightarrow> 0))
               (nmea_lon (case lon p of Some v \<Rightarrow> v | None \<Rightarrow> 0))
               (if (case gps_valid p of Some v \<Rightarrow> v | None \<Rightarrow> False) then 1 else 0)
               (case gps_sats p of Some v \<Rightarrow> v | None \<Rightarrow> 0) 1
               (case alt p of Some v \<Rightarrow> v | None \<Rightarrow> 0)),
            with_checksum (rmc_body (time_str_of now) (case gps_valid p of Some v \<Rightarrow> v | None \<Rightarrow> False)
               (nmea_lat (case lat p of Some v \<Rightarrow> v | None \<Rightarrow> 0))
               (nmea_lon (case lon p of Some v \<Rightarrow> v | None \<Rightarrow> 0)) (strftime_dmy now)),
            with_checksum vtg_body,
            with_checksum (gll_body (nmea_lat (case lat p of Some v \<Rightarrow> v | None \<Rightarrow> 0))
               (nmea_lon (case lon p of Some v \<Rightarrow> v | None \<Rightarrow> 0)) (time_str_of now)
               (case gps_valid p of Some v \<Rightarrow> v | None \<Rightarrow> False)),
            with_checksum (gsa_body 1)])"
  by (simp add: generate_nmea_sentences_def Let_def)

lemma field_Suc_Cons:
  "field (Suc n) (c # s) = (if c = CHR '','' then field n s else field (Suc n) s)"
  by simp

lemma field_Suc_skip: "CHR '','' \<notin> set a \<Longrightarrow> field (Suc n) (a @ r) = field (Suc n) r"
proof -
  assume "CHR '','' \<notin> set a"
  then have "\<And>x. x \<in> set a \<Longrightarrow> x \<noteq> CHR '',''" by auto
  then have "dropWhile (\<lambda>x. x \<noteq> CHR '','') (a @ r) = dropWhile (\<lambda>x. x \<noteq> CHR '','') r"
    by (rule dropWhile_append2)
  then show ?thesis by simp
qed

lemma field_0_skip:
  "CHR '','' \<notin> set a \<Longrightarrow> field 0 (a @ r) = Some (a @ takeWhile (\<lambda>x. x \<noteq> CHR '','') r)"
proof -
  assume "CHR '','' \<notin> set a"
  then have "\<And>x. x \<in> set a \<Longrightarrow> x \<noteq> CHR '',''" by auto
  then have "takeWhile (\<lambda>x. x \<noteq> CHR '','') (a @ r) = a @ takeWhile (\<lambda>x. x \<noteq> CHR '','') r"
    by (rule takeWhile_append2)
  then show ?thesis by simp
qed

lemma sentence_field_with_checksum:
  assumes "body = CHR ''$'' # rest" and "CHR ''*'' \<notin> set rest"
  shows "sentence_field n (with_checksum body) = field n body"
proof -
  have "\<And>x. x \<in> set body \<Longrightarrow> x \<noteq> CHR ''*''" using assms by auto
  then have "takeWhile (\<lambda>x. x \<noteq> CHR ''*'') (body @ CHR ''*'' # calculate_checksum body) = body"
    by (simp add: takeWhile_append2)
  then show ?thesis by (simp add: sentence_field_def with_checksum_def)
qed

lemma no_comma:
  "CHR '','' \<notin> set (str_nat n)" "CHR '','' \<notin> set (str_int i)" "CHR '','' \<notin> set (fmt_0d w i)"
  "CHR '','' \<notin> set (fmt_f q x)" "CHR '','' \<notin> set (fmt_0f w q x)" "CHR '','' \<notin> set (time_str_of now)"
  "CHR '','' \<notin> set (strftime_dmy now)"
  by (simp_all add: str_nat_avoid str_int_avoid fmt_0d_avoid fmt_f_avoid fmt_0f_avoid time_str_avoid
      date_str_avoid)

lemmas field_eval = field_Suc_Cons field_Suc_skip field_0_skip no_comma

lemma gga_quality:
  "sentence_field 6 (with_checksum (gga_body (time_str_of t) (nmea_lat la) (nmea_lon lo) q s a al))
     = Some (str_nat q)"
proof -
  obtain rest where r: "gga_body (time_str_of t) (nmea_lat la) (nmea_lon lo) q s a al = CHR ''$'' # rest"
      "CHR ''*'' \<notin> set rest"
    using gga_shape[of "time_str_of t" "nmea_lat la" "nmea_lon lo" q s a al] by (auto simp: no_star)
  have "field 6 (gga_body (time_str_of t) (nmea_lat la) (nmea_lon lo) q s a al) = Some (str_nat q)"
    by (simp add: gga_body_def nmea_lat_def nmea_lon_def Let_def eval_nat_numeral field_eval
        del: field.simps)
  then show ?thesis using sentence_field_with_checksum[OF r] by simp
qed

lemma rmc_status:
  "sentence_field 2 (with_checksum (rmc_body (time_str_of t) v (nmea_lat la) (nmea_lon lo) (strftime_dmy t')))
     = Some (if v then ''A'' else ''V'')"
proof -
  obtain rest where r: "rmc_body (time_str_of t) v (nmea_lat la) (nmea_lon lo) (strftime_dmy t') = CHR ''$'' # rest"
      "CHR ''*'' \<notin> set rest"
    using rmc_shape[of "time_str_of t" "nmea_lat la" "nmea_lon lo" "strftime_dmy t'" v] by (auto simp: no_star)
  have "field 2 (rmc_body (time_str_of t) v (nmea_lat la) (nmea_lon lo) (strftime_dmy t'))
      = Some (if v then ''A'' else ''V'')"
    by (simp add: rmc_body_def eval_nat_numeral field_eval del: field.simps)
  then show ?thesis using sentence_field_with_checksum[OF r] by simp
qed

lemma gll_status:
  "sentence_field 6 (with_checksum (gll_body (nmea_lat la) (nmea_lon lo) (time_str_of t) v))
     = Some (if v then ''A'' else ''V'')"
proof -
  obtain rest where r: "gll_body (nmea_lat la) (nmea_lon lo) (time_str_of t) v = CHR ''$'' # rest"
      "CHR ''*'' \<notin> set rest"
    using gll_shape[of "time_str_of t" "nmea_lat la" "nmea_lon lo" v] by (auto simp: no_star)
  have "field 6 (gll_body (nmea_lat la) (nmea_lon lo) (time_str_of t) v)
      = Some (if v then ''A'' else ''V'')"
    by (simp add: gll_body_def nmea_lat_def nmea_lon_def Let_def eval_nat_numeral field_eval
        del: field.simps)
  then show ?thesis using sentence_field_with_checksum[OF r] by simp
qed

text \<open>The batches of the scenarios, evaluated.\<close>

lemma replicate_num: "replicate (numeral k) x = x # replicate (pred_numeral k) x"
  by (simp add: numeral_eq_Suc)

lemmas fmt_eval = nmea_lat_def nmea_lon_def fmt_0d_def fmt_0f_def fmt_f_def fixed_digits_def
  zpad_def str_int_def str_nat.simps digit_char_def round_half_even_def int_trunc_def
  Let_def replicate_num

lemma example_coordinates:
  "nmea_lat (238 / 5) = ''4736.0000,N''"
  "nmea_lon (- (1223 / 10)) = ''12218.0000,W''"
  "nmea_lat 47 = ''4700.0000,N''"
  "nmea_lon (- 122) = ''12200.0000,W''"
  "nmea_lat 0 = ''0000.0000,N''"
  by (simp_all add: fmt_eval)

lemma example_numbers:
  "fmt_f (Suc 0) 1 = ''1.0''" "fmt_f (Suc 0) 10 = ''10.0''" "fmt_f (Suc 0) 0 = ''0.0''"
  "str_int 8 = ''8''" "str_int 0 = ''0''" "str_nat 0 = ''0''" "str_nat (Suc 0) = ''1''"
  by (simp_all add: fmt_eval)

lemma example_times:
  "time_str_of scenario_now = ''000000.00''"
  "strftime_dmy scenario_now = ''010125''"
  "zda_body ''000000.00'' scenario_now = ''$GPZDA,000000.00,01,01,2025,,,''"
  by code_simp+

lemma example_checksums:
  "with_checksum ''$GPGGA,000000.00,4736.0000,N,12218.0000,W,1,8,1.0,10.0,M,0.0,M,,''
     = ''$GPGGA,000000.00,4736.0000,N,12218.0000,W,1,8,1.0,10.0,M,0.0,M,,*48''"
  "with_checksum ''$GPRMC,000000.00,A,4736.0000,N,12218.0000,W,0.0,0.0,010125,,''
     = ''$GPRMC,000000.00,A,4736.0000,N,12218.0000,W,0.0,0.0,010125,,*28''"
  "with_checksum ''$GPVTG,0.0,T,,M,0.0,N,0.0,K,''
     = ''$GPVTG,0.0,T,,M,0.0,N,0.0,K,*4C''"
  "with_checksum ''$GPGLL,4736.0000,N,12218.0000,W,000000.00,A,''
     = ''$GPGLL,4736.0000,N,12218.0000,W,000000.00,A,*34''"
  "with_checksum ''$GPGSA,A,3,01,02,03,04,05,06,07,08,09,10,11,12,1.0,1.0,1.0''
     = ''$GPGSA,A,3,01,02,03,04,05,06,07,08,09,10,11,12,1.0,1.0,1.0*30''"
  "with_checksum ''$GPZDA,000000.00,01,01,2025,,,''
     = ''$GPZDA,000000.00,01,01,2025,,,*4F''"
  "with_checksum ''$GPGGA,000000.00,4700.0000,N,12200.0000,W,1,8,1.0,10.0,M,0.0,M,,''
     = ''$GPGGA,000000.00,4700.0000,N,12200.0000,W,1,8,1.0,10.0,M,0.0,M,,*44''"
  "with_checksum ''$GPRMC,000000.00,A,4700.0000,N,12200.0000,W,0.0,0.0,010125,,''
     = ''$GPRMC,000000.00,A,4700.0000,N,12200.0000,W,0.0,0.0,010125,,*24''"
  "with_checksum ''$GPGLL,4700.0000,N,12200.0000,W,000000.00,A,''
     = ''$GPGLL,4700.0000,N,12200.0000,W,000000.00,A,*38''"
  "with_checksum ''$GPGGA,000000.00,0000.0000,N,12218.0000,W,0,0,1.0,0.0,M,0.0,M,,''
     = ''$GPGGA,000000.00,0000.0000,N,12218.0000,W,0,0,1.0,0.0,M,0.0,M,,*76''"
  "with_checksum ''$GPRMC,000000.00,V,0000.0000,N,12218.0000,W,0.0,0.0,010125,,''
     = ''$GPRMC,000000.00,V,0000.0000,N,12218.0000,W,0.0,0.0,010125,,*39''"
  "with_checksum ''$GPGLL,0000.0000,N,12218.0000,W,000000.00,V,''
     = ''$GPGLL,0000.0000,N,12218.0000,W,000000.00,V,*25''"
  "with_checksum ''$GPGGA,000000.00,4736.0000,N,12218.0000,W,0,8,1.0,10.0,M,0.0,M,,''
     = ''$GPGGA,000000.00,4736.0000,N,12218.0000,W,0,8,1.0,10.0,M,0.0,M,,*49''"
  "with_checksum ''$GPRMC,000000.00,V,4736.0000,N,12218.0000,W,0.0,0.0,010125,,''
     = ''$GPRMC,000000.00,V,4736.0000,N,12218.0000,W,0.0,0.0,010125,,*3F''"
  "with_checksum ''$GPGLL,4736.0000,N,12218.0000,W,000000.00,V,''
     = ''$GPGLL,4736.0000,N,12218.0000,W,000000.00,V,*23''"
  by code_simp+

lemma udp_scenario_batch:
  "generate_nmea_sentences scenario_fix scenario_now =
     [''$GPGGA,000000.00,4736.0000,N,12218.0000,W,1,8,1.0,10.0,M,0.0,M,,*48'',
      ''$GPRMC,000000.00,A,4736.0000,N,12218.0000,W,0.0,0.0,010125,,*28'',
      ''$GPVTG,0.0,T,,M,0.0,N,0.0,K,*4C'',
      ''$GPGLL,4736.0000,N,12218.0000,W,000000.00,A,*34'',
      ''$GPGSA,A,3,01,02,03,04,05,06,07,08,09,10,11,12,1.0,1.0,1.0*30'']"
  by (simp add: generate_nmea_sentences_def scenario_fix_def absent_fix_def Let_def example_coordinates
      example_numbers example_times gga_body_def rmc_body_def vtg_body_def gll_body_def gsa_body_def
      example_checksums)

lemma fallback_scenario_batch:
  "get_starlink_sentences scenario_fix (\<lambda>i. scenario_now) =
     [''$GPGGA,000000.00,4736.0000,N,12218.0000,W,1,8,1.0,10.0,M,0.0,M,,*48'',
      ''$GPRMC,000000.00,A,4736.0000,N,12218.0000,W,0.0,0.0,010125,,*28'',
      ''$GPVTG,0.0,T,,M,0.0,N,0.0,K,*4C'',
      ''$GPGLL,4736.0000,N,12218.0000,W,000000.00,A,*34'',
      ''$GPGSA,A,3,01,02,03,04,05,06,07,08,09,10,11,12,1.0,1.0,1.0*30'',
      ''$GPZDA,000000.00,01,01,2025,,,*4F'']"
  by (simp add: get_starlink_sentences_def scenario_fix_def absent_fix_def Let_def example_coordinates
      example_numbers example_times gga_body_def rmc_body_def vtg_body_def gll_body_def gsa_body_def
      example_checksums)

lemma fallback_absent_batch:
  "get_starlink_sentences absent_fix (\<lambda>i. scenario_now) =
     [''$GPGGA,000000.00,4700.0000,N,12200.0000,W,1,8,1.0,10.0,M,0.0,M,,*44'',
      ''$GPRMC,000000.00,A,4700.0000,N,12200.0000,W,0.0,0.0,010125,,*24'',
      ''$GPVTG,0.0,T,,M,0.0,N,0.0,K,*4C'',
      ''$GPGLL,4700.0000,N,12200.0000,W,000000.00,A,*38'',
      ''$GPGSA,A,3,01,02,03,04,05,06,07,08,09,10,11,12,1.0,1.0,1.0*30'',
      ''$GPZDA,000000.00,01,01,2025,,,*4F'']"
  by (simp add: get_starlink_sentences_def scenario_fix_def absent_fix_def Let_def example_coordinates
      example_numbers example_times gga_body_def rmc_body_def vtg_body_def gll_body_def gsa_body_def
      example_checksums)


lemma udp_no_valid_batch:
  "generate_nmea_sentences (scenario_fix\<lparr>gps_valid := None\<rparr>) scenario_now =
     [''$GPGGA,000000.00,4736.0000,N,12218.0000,W,0,8,1.0,10.0,M,0.0,M,,*49'',
      ''$GPRMC,000000.00,V,4736.0000,N,12218.0000,W,0.0,0.0,010125,,*3F'',
      ''$GPVTG,0.0,T,,M,0.0,N,0.0,K,*4C'',
      ''$GPGLL,4736.0000,N,12218.0000,W,000000.00,V,*23'',
      ''$GPGSA,A,3,01,02,03,04,05,06,07,08,09,10,11,12,1.0,1.0,1.0*30'']"
  by (simp add: generate_nmea_sentences_def scenario_fix_def absent_fix_def Let_def example_coordinates
      example_numbers example_times gga_body_def rmc_body_def vtg_body_def gll_body_def gsa_body_def
      example_checksums)

text \<open>
  C2. Every sentence of every batch, of the UDP bridge and of the fallback bridge, starts
  with \<open>$\<close>, has one \<open>*\<close>, and ends after it with exactly two upper-case hexadecimal
  digits whose value is the exclusive-or of the bytes between the \<open>$\<close> and the \<open>*\<close>.
\<close>

theorem nmea_checksums:
  "(\<forall>s \<in> set (generate_nmea_sentences p now). checksum_ok s) \<and>
   (\<forall>s \<in> set (get_starlink_sentences p nows). checksum_ok s)"
proof -
  have gga: "checksum_ok (with_checksum (gga_body (time_str_of t) (nmea_lat la) (nmea_lon lo) q s a al))"
    for t la lo q s a al
    using gga_shape[of "time_str_of t" "nmea_lat la" "nmea_lon lo" q s a al]
    by (auto simp: no_star intro: checksum_ok_with_checksum)
  have rmc: "checksum_ok (with_checksum (rmc_body (time_str_of t) v (nmea_lat la) (nmea_lon lo) (strftime_dmy t')))"
    for t v la lo t'
    using rmc_shape[of "time_str_of t" "nmea_lat la" "nmea_lon lo" "strftime_dmy t'" v]
    by (auto simp: no_star intro: checksum_ok_with_checksum)
  have vtg: "checksum_ok (with_checksum vtg_body)"
    using vtg_shape by (auto intro: checksum_ok_with_checksum)
  have gll: "checksum_ok (with_checksum (gll_body (nmea_lat la) (nmea_lon lo) (time_str_of t) v))"
    for t v la lo
    using gll_shape[of "time_str_of t" "nmea_lat la" "nmea_lon lo" v]
    by (auto simp: no_star intro: checksum_ok_with_checksum)
  have gsa: "checksum_ok (with_checksum (gsa_body a))" for a
    using gsa_shape[of a] by (auto intro: checksum_ok_with_checksum)
  have zda: "checksum_ok (with_checksum (zda_body (time_str_of t) t'))" for t t'
    using zda_shape[of "time_str_of t" t'] by (auto simp: no_star intro: checksum_ok_with_checksum)
  show ?thesis
    by (simp add: udp_batch get_starlink_sentences_def Let_def gga rmc vtg gll gsa zda)
qed

theorem nmea_checksums_witness:
  "checksum_ok ''$GPGGA,000000.00,4736.0000,N,12218.0000,W,1,8,1.0,10.0,M,0.0,M,,*48'' \<and>
   checksum_ok ''$GPGSA,A,3,01,02,03,04,05,06,07,08,09,10,11,12,1.0,1.0,1.0*30'' \<and>
   checksum_ok ''$GPZDA,000000.00,01,01,2025,,,*4F''"
  using nmea_checksums[of scenario_fix scenario_now "\<lambda>i. scenario_now"]
  unfolding udp_scenario_batch fallback_scenario_batch by simp

text \<open>
  C5 (as amended). With the validity flag absent, the UDP bridge writes fix quality 0 in
  GGA and status V in RMC and GLL, and the injection message carries fix type 0. The
  fallback bridge replaces an absent flag by true: quality 1, status A.
\<close>

theorem absent_validity:
  "gps_valid p = None \<longrightarrow>
     (generate_nmea_sentences p now \<noteq> [] \<longrightarrow>
        sentence_field 6 (generate_nmea_sentences p now ! 0) = Some ''0'' \<and>
        sentence_field 2 (generate_nmea_sentences p now ! 1) = Some ''V'' \<and>
        sentence_field 6 (generate_nmea_sentences p now ! 3) = Some ''V'') \<and>
     (\<forall>m \<in> set (fst (snd (send_gps_input st n p t))). fix_type m = 0) \<and>
     sentence_field 6 (get_starlink_sentences p nows ! 0) = Some ''1'' \<and>
     sentence_field 2 (get_starlink_sentences p nows ! 1) = Some ''A'' \<and>
     sentence_field 6 (get_starlink_sentences p nows ! 3) = Some ''A''"
proof
  assume v: "gps_valid p = None"
  have udp: "generate_nmea_sentences p now \<noteq> [] \<longrightarrow>
        sentence_field 6 (generate_nmea_sentences p now ! 0) = Some ''0'' \<and>
        sentence_field 2 (generate_nmea_sentences p now ! 1) = Some ''V'' \<and>
        sentence_field 6 (generate_nmea_sentences p now ! 3) = Some ''V''"
    using v by (simp add: udp_batch gga_quality rmc_status gll_status str_nat.simps digit_char_def)
  have mav: "\<forall>m \<in> set (fst (snd (send_gps_input st n p t))). fix_type m = 0"
    using v by (simp add: send_gps_input_def truthy_bool_def Let_def split: option.splits)
  have fb: "sentence_field 6 (get_starlink_sentences p nows ! 0) = Some ''1'' \<and>
     sentence_field 2 (get_starlink_sentences p nows ! 1) = Some ''A'' \<and>
     sentence_field 6 (get_starlink_sentences p nows ! 3) = Some ''A''"
    using v
    by (simp add: get_starlink_sentences_def Let_def gga_quality rmc_status gll_status
        str_nat.simps digit_char_def)
  from udp mav fb show "(generate_nmea_sentences p now \<noteq> [] \<longrightarrow>
        sentence_field 6 (generate_nmea_sentences p now ! 0) = Some ''0'' \<and>
        sentence_field 2 (generate_nmea_sentences p now ! 1) = Some ''V'' \<and>
        sentence_field 6 (generate_nmea_sentences p now ! 3) = Some ''V'') \<and>
     (\<forall>m \<in> set (fst (snd (send_gps_input st n p t))). fix_type m = 0) \<and>
     sentence_field 6 (get_starlink_sentences p nows ! 0) = Some ''1'' \<and>
     sentence_field 2 (get_starlink_sentences p nows ! 1) = Some ''A'' \<and>
     sentence_field 6 (get_starlink_sentences p nows ! 3) = Some ''A''"
    by blast
qed

theorem absent_validity_witness:
  "sentence_field 6 (generate_nmea_sentences (scenario_fix\<lparr>gps_valid := None\<rparr>) scenario_now ! 0) = Some ''0'' \<and>
   sentence_field 2 (generate_nmea_sentences (scenario_fix\<lparr>gps_valid := None\<rparr>) scenario_now ! 1) = Some ''V'' \<and>
   sentence_field 6 (generate_nmea_sentences (scenario_fix\<lparr>gps_valid := None\<rparr>) scenario_now ! 3) = Some ''V'' \<and>
   map fix_type (fst (snd (send_gps_input ntp_initial 0 (scenario_fix\<lparr>gps_valid := None\<rparr>) 1735689600))) = [0] \<and>
   sentence_field 6 (get_starlink_sentences (scenario_fix\<lparr>gps_valid := None\<rparr>) (\<lambda>i. scenario_now) ! 0) = Some ''1'' \<and>
   sentence_field 2 (get_starlink_sentences (scenario_fix\<lparr>gps_valid := None\<rparr>) (\<lambda>i. scenario_now) ! 1) = Some ''A'' \<and>
   sentence_field 6 (get_starlink_sentences (scenario_fix\<lparr>gps_valid := None\<rparr>) (\<lambda>i. scenario_now) ! 3) = Some ''A''"
proof -
  have v: "gps_valid (scenario_fix\<lparr>gps_valid := None\<rparr>) = None" by simp
  have ne: "generate_nmea_sentences (scenario_fix\<lparr>gps_valid := None\<rparr>) scenario_now \<noteq> []"
    by (simp add: udp_no_valid_batch)
  have sent: "fst (snd (send_gps_input ntp_initial 0 (scenario_fix\<lparr>gps_valid := None\<rparr>) 1735689600)) \<noteq> []"
    by (simp add: send_gps_input_def scenario_fix_def Let_def)
  from absent_validity[of "scenario_fix\<lparr>gps_valid := None\<rparr>" scenario_now ntp_initial 0 1735689600
      "\<lambda>i. scenario_now"] v ne
  have a: "sentence_field 6 (generate_nmea_sentences (scenario_fix\<lparr>gps_valid := None\<rparr>) scenario_now ! 0) = Some ''0'' \<and>
   sentence_field 2 (generate_nmea_sentences (scenario_fix\<lparr>gps_valid := None\<rparr>) scenario_now ! 1) = Some ''V'' \<and>
   sentence_field 6 (generate_nmea_sentences (scenario_fix\<lparr>gps_valid := None\<rparr>) scenario_now ! 3) = Some ''V''"
    and b: "\<forall>m \<in> set (fst (snd (send_gps_input ntp_initial 0 (scenario_fix\<lparr>gps_valid := None\<rparr>) 1735689600))). fix_type m = 0"
    and c: "sentence_field 6 (get_starlink_sentences (scenario_fix\<lparr>gps_valid := None\<rparr>) (\<lambda>i. scenario_now) ! 0) = Some ''1'' \<and>
   sentence_field 2 (get_starlink_sentences (scenario_fix\<lparr>gps_valid := None\<rparr>) (\<lambda>i. scenario_now) ! 1) = Some ''A'' \<and>
   sentence_field 6 (get_starlink_sentences (scenario_fix\<lparr>gps_valid := None\<rparr>) (\<lambda>i. scenario_now) ! 3) = Some ''A''"
    by blast+
  have d: "map fix_type (fst (snd (send_gps_input ntp_initial 0 (scenario_fix\<lparr>gps_valid := None\<rparr>) 1735689600))) = [0]"
    using b by (simp add: send_gps_input_def scenario_fix_def Let_def)
  from a d c show ?thesis by blast
qed

text \<open>
  C5 as stated fails in the fallback bridge: for the sample of a failed query, whose
  validity flag is absent, its GGA sentence carries quality 1 and its RMC sentence
  status A.
\<close>

theorem absent_validity_counterexample:
  "gps_valid absent_fix = None \<and>
   get_starlink_sentences absent_fix (\<lambda>i. scenario_now) ! 0
     = ''$GPGGA,000000.00,4700.0000,N,12200.0000,W,1,8,1.0,10.0,M,0.0,M,,*44'' \<and>
   get_starlink_sentences absent_fix (\<lambda>i. scenario_now) ! 1
     = ''$GPRMC,000000.00,A,4700.0000,N,12200.0000,W,0.0,0.0,010125,,*24'' \<and>
   sentence_field 6 (get_starlink_sentences absent_fix (\<lambda>i. scenario_now) ! 0) = Some ''1'' \<and>
   sentence_field 2 (get_starlink_sentences absent_fix (\<lambda>i. scenario_now) ! 1) = Some ''A''"
proof -
  have f6: "sentence_field 6 ''$GPGGA,000000.00,4700.0000,N,12200.0000,W,1,8,1.0,10.0,M,0.0,M,,*44'' = Some ''1''"
    by code_simp
  have f2: "sentence_field 2 ''$GPRMC,000000.00,A,4700.0000,N,12200.0000,W,0.0,0.0,010125,,*24'' = Some ''A''"
    by code_simp
  show ?thesis
    unfolding fallback_absent_batch using f6 f2 by (simp add: absent_fix_def)
qed

text \<open>
  C7 (as amended). The batch of the fallback bridge is always GGA, RMC, VTG, GLL, GSA, ZDA,
  one of each in this order. A non-empty batch of the UDP bridge is GGA, RMC, VTG, GLL,
  GSA, one of each in this order, with no ZDA sentence.
\<close>

theorem batch_kinds:
  "map kind_of (get_starlink_sentences p nows) = [Some GGA, Some RMC, Some VTG, Some GLL, Some GSA, Some ZDA] \<and>
   (generate_nmea_sentences p now \<noteq> [] \<longrightarrow>
      map kind_of (generate_nmea_sentences p now) = [Some GGA, Some RMC, Some VTG, Some GLL, Some GSA])"
  by (simp add: get_starlink_sentences_def udp_batch Let_def kind_bodies)

theorem batch_kinds_witness:
  "map kind_of (get_starlink_sentences scenario_fix (\<lambda>i. scenario_now))
     = [Some GGA, Some RMC, Some VTG, Some GLL, Some GSA, Some ZDA] \<and>
   map kind_of (generate_nmea_sentences scenario_fix scenario_now)
     = [Some GGA, Some RMC, Some VTG, Some GLL, Some GSA]"
proof -
  have ne: "generate_nmea_sentences scenario_fix scenario_now \<noteq> []"
    by (simp add: udp_scenario_batch)
  from batch_kinds[of scenario_fix "\<lambda>i. scenario_now" scenario_now] ne show ?thesis by blast
qed

text \<open>
  C7 as stated fails in the UDP bridge: the batch of the scenario has five sentences and
  none of them is ZDA.
\<close>

theorem batch_kinds_counterexample:
  "generate_nmea_sentences scenario_fix scenario_now =
     [''$GPGGA,000000.00,4736.0000,N,12218.0000,W,1,8,1.0,10.0,M,0.0,M,,*48'',
      ''$GPRMC,000000.00,A,4736.0000,N,12218.0000,W,0.0,0.0,010125,,*28'',
      ''$GPVTG,0.0,T,,M,0.0,N,0.0,K,*4C'',
      ''$GPGLL,4736.0000,N,12218.0000,W,000000.00,A,*34'',
      ''$GPGSA,A,3,01,02,03,04,05,06,07,08,09,10,11,12,1.0,1.0,1.0*30''] \<and>
   length (generate_nmea_sentences scenario_fix scenario_now) = 5 \<and>
   Some ZDA \<notin> set (map kind_of (generate_nmea_sentences scenario_fix scenario_now))"
proof -
  have k: "map kind_of (generate_nmea_sentences scenario_fix scenario_now)
     = [Some GGA, Some RMC, Some VTG, Some GLL, Some GSA]"
    by (simp add: udp_batch kind_bodies scenario_fix_def)
  show ?thesis unfolding k using udp_scenario_batch by simp
qed



end
